theory Spec2Isabelle
  imports Complex_Main
begin

section \<open>Conventions of the embedding\<close>

text \<open>
  The two userscripts \<^verbatim>\<open>step1_marketplace_searcher.js\<close> and
  \<^verbatim>\<open>js/step2_auto_seller.js\<close> are embedded function by function.

  \<^item> A JavaScript number is a rational (\<^typ>\<open>rat\<close>) where the script computes with
    fractions (prices, delays before \<^verbatim>\<open>Math.floor\<close>) and an integer where the value
    comes from \<^verbatim>\<open>parseInt\<close> or \<^verbatim>\<open>Math.floor\<close>. Arithmetic is exact: the rounding
    of IEEE doubles and the values \<^verbatim>\<open>Infinity\<close> are outside the model. \<^verbatim>\<open>NaN\<close> is
    \<^term>\<open>None\<close> where a parse can produce it.
  \<^item> The page (DOM) is an input: each function takes a record of what its DOM queries
    return.
  \<^item> Formatted strings (\<^verbatim>\<open>toFixed\<close>) and console output carry no behaviour and are
    left out; the observable effects that matter (clicks, sleeps, the inventory read, the
    start of a purchase attempt) are recorded in a trace.
\<close>

text \<open>\<^verbatim>\<open>x || d\<close> on a parsed number: \<^verbatim>\<open>NaN\<close> and \<^verbatim>\<open>0\<close> are falsy.\<close>

definition js_or :: "'a::zero option \<Rightarrow> 'a \<Rightarrow> 'a" where
  "js_or v d = (case v of None \<Rightarrow> d | Some x \<Rightarrow> if x = 0 then d else x)"

section \<open>Step 1: the marketplace searcher\<close>

subsection \<open>Configuration\<close>

record step1_config =
  targetItem :: string
  maxPricePerUnit :: rat
  maxRows :: int
  autoBuy :: bool
  checkInventory :: bool

definition step1_CONFIG :: step1_config where
  "step1_CONFIG = \<lparr> targetItem = ''12.7mm Rifle Bullets'',
                    maxPricePerUnit = 116 / 10,
                    maxRows = 10,
                    autoBuy = False,
                    checkInventory = True \<rparr>"

subsection \<open>analyzeSearchResults\<close>

text \<open>
  A \<^verbatim>\<open>.fakeItem\<close> row of the result table: what \<^verbatim>\<open>parseFloat(item.dataset.price)\<close> and
  \<^verbatim>\<open>parseInt(item.dataset.quantity)\<close> return for it, and the identity of the node.
\<close>

record fakeItem =
  node :: nat
  dataset_price :: "rat option"
  dataset_quantity :: "int option"

text \<open>An entry of \<^verbatim>\<open>goodDeals\<close> (the formatted \<^verbatim>\<open>pricePerUnit\<close> string is left out).\<close>

record deal =
  index :: nat
  price :: rat
  quantity :: int
  element :: fakeItem
  actualPrice :: rat
  actualPricePerUnit :: rat

record search_results =
  items :: "deal list"
  count :: nat

text \<open>
  The page as \<^verbatim>\<open>analyzeSearchResults\<close> sees it: \<^verbatim>\<open>itemDisplay\<close> is
  \<^verbatim>\<open>childNodes.length\<close> of the element of that id when it exists, \<^verbatim>\<open>fakeItems\<close> the
  node list of \<^verbatim>\<open>querySelectorAll('.fakeItem')\<close>.
\<close>

record result_page =
  itemDisplay :: "nat option"
  fakeItems :: "fakeItem list"

text \<open>
  The \<^verbatim>\<open>for\<close> loop over the rows to check; \<^verbatim>\<open>idx\<close> is the loop variable. The
  \<^verbatim>\<open>else\<close> branch is the \<^verbatim>\<open>break\<close>.
\<close>

fun checkRows :: "step1_config \<Rightarrow> nat \<Rightarrow> fakeItem list \<Rightarrow> deal list" where
  "checkRows cfg idx [] = []"
| "checkRows cfg idx (item # rest) =
     (let price = js_or (dataset_price item) 0;
          quantity = js_or (dataset_quantity item) 1;
          pricePerUnit = price / of_int quantity
      in if pricePerUnit \<le> maxPricePerUnit cfg
         then \<lparr> index = idx + 1, price = price, quantity = quantity, element = item,
                actualPrice = price, actualPricePerUnit = pricePerUnit \<rparr>
              # checkRows cfg (idx + 1) rest
         else [])"

definition analyzeSearchResults :: "step1_config \<Rightarrow> result_page \<Rightarrow> search_results" where
  "analyzeSearchResults cfg page =
     (case itemDisplay page of
        None \<Rightarrow> \<lparr> items = [], count = 0 \<rparr>
      | Some childNodes \<Rightarrow>
          if childNodes \<le> 0 then \<lparr> items = [], count = 0 \<rparr>
          else let itemsToCheck = min (int (length (fakeItems page))) (maxRows cfg);
                   goodDeals = checkRows cfg 0 (take (nat itemsToCheck) (fakeItems page))
               in \<lparr> items = goodDeals, count = length goodDeals \<rparr>)"

subsection \<open>checkInventoryStatus\<close>

text \<open>
  What the DOM queries of \<^verbatim>\<open>checkInventoryStatus\<close> return. \<^verbatim>\<open>inventoryItems\<close> is the
  length of the node list. \<^verbatim>\<open>inventoryInfo\<close> and \<^verbatim>\<open>invController\<close> are \<^term>\<open>None\<close>
  when the element is missing; otherwise they hold what matching the element's text
  against \<^verbatim>\<open>/(\d+)\s*\/\s*(\d+)/\<close> gives: \<^term>\<open>None\<close> for no match, or the two parsed
  groups (used, total). \<^verbatim>\<open>dom_throws\<close> says that a DOM access raises inside the
  \<^verbatim>\<open>try\<close>.
\<close>

record inventory_dom =
  inventoryItems :: nat
  inventoryInfo :: "(nat \<times> nat) option option"
  invController :: "(nat \<times> nat) option option"
  dom_throws :: bool

text \<open>The returned object (the formatted \<^verbatim>\<open>usagePercentage\<close> is left out).\<close>

record inventoryStatus =
  totalSlots :: int
  usedSlots :: int
  availableSlots :: int
  isFull :: bool
  isNearFull :: bool
  error :: bool

text \<open>The three mutable locals \<^verbatim>\<open>totalSlots\<close>, \<^verbatim>\<open>usedSlots\<close>, \<^verbatim>\<open>availableSlots\<close>.\<close>

type_synonym slots = "int \<times> int \<times> int"

definition method1 :: "inventory_dom \<Rightarrow> slots \<Rightarrow> slots" where
  "method1 doc s =
     (case inventoryInfo doc of
        Some (Some (usd, tot)) \<Rightarrow> (int tot, int usd, int tot - int usd)
      | _ \<Rightarrow> s)"

definition method2 :: "inventory_dom \<Rightarrow> slots \<Rightarrow> slots" where
  "method2 doc s =
     (case s of (tot, usd, avail) \<Rightarrow>
        if tot = 0 \<and> inventoryItems doc > 0
        then (40, int (inventoryItems doc), avail)
        else s)"

definition method3 :: "inventory_dom \<Rightarrow> slots \<Rightarrow> slots" where
  "method3 doc s =
     (case s of (tot, usd, avail) \<Rightarrow>
        (case invController doc of
           Some (Some (u, t)) \<Rightarrow>
             if tot = 0 then (int t, int u, int t - int u) else s
         | _ \<Rightarrow> s))"

definition fallback :: "inventory_dom \<Rightarrow> slots \<Rightarrow> slots" where
  "fallback doc s =
     (case s of (tot, usd, avail) \<Rightarrow>
        if tot = 0
        then (40, int (inventoryItems doc), 40 - int (inventoryItems doc))
        else (tot, usd, tot - usd))"

definition checkInventoryStatus :: "inventory_dom \<Rightarrow> inventoryStatus" where
  "checkInventoryStatus doc =
     (if dom_throws doc
      then \<lparr> totalSlots = 0, usedSlots = 0, availableSlots = 0,
             isFull = False, isNearFull = False, error = True \<rparr>
      else case fallback doc (method3 doc (method2 doc (method1 doc (0, 0, 0)))) of
             (tot, usd, avail) \<Rightarrow>
               \<lparr> totalSlots = tot, usedSlots = usd, availableSlots = avail,
                 isFull = (avail \<le> 0), isNearFull = (avail \<le> 3),
                 error = False \<rparr>)"

subsection \<open>Purchasing: handleConfirmDialog, buyItem, autoBuyItems\<close>

text \<open>The observable effects of the script on the page, in order.\<close>

datatype effect =
    Navigate
  | Read_inventory
  | Click_buy_tab
  | Search string
  | Attempt nat
  | Click_item nat
  | Click_buy
  | Click_yes
  | Sleep nat

datatype js_error = SyntaxError | DomError

text \<open>
  The page during \<^verbatim>\<open>handleConfirmDialog\<close>: \<^verbatim>\<open>yesButton\<close> is \<^term>\<open>None\<close> when the
  first query finds nothing, else whether its \<^verbatim>\<open>innerHTML\<close> includes \<^verbatim>\<open>Yes\<close>;
  \<^verbatim>\<open>confirmButtons\<close> says for every button of the second query whether its text includes
  \<^verbatim>\<open>Yes\<close>; \<^verbatim>\<open>yes_click_throws\<close> says that clicking raises.
\<close>

record confirm_dom =
  yesButton :: "bool option"
  confirmButtons :: "bool list"
  yes_click_throws :: bool

text \<open>The \<^verbatim>\<open>for (let button of confirmButtons)\<close> loop: is there a button to click?\<close>

fun findYes :: "bool list \<Rightarrow> bool" where
  "findYes [] = False"
| "findYes (hasYes # rest) = (if hasYes then True else findYes rest)"

text \<open>The body of the \<^verbatim>\<open>try\<close>: the effects so far, and the exception or the value.\<close>

definition handleConfirmDialog_try :: "confirm_dom \<Rightarrow> effect list \<times> (js_error + bool)" where
  "handleConfirmDialog_try doc =
     (if yesButton doc = Some True \<or> findYes (confirmButtons doc)
      then if yes_click_throws doc then ([], Inl DomError)
           else ([Click_yes, Sleep 2000], Inr True)
      else ([], Inr False))"

text \<open>\<^verbatim>\<open>catch (error) { ...; return false; }\<close>\<close>

definition catch_false :: "effect list \<times> (js_error + bool) \<Rightarrow> effect list \<times> bool" where
  "catch_false r = (case snd r of Inl e \<Rightarrow> (fst r, False) | Inr b \<Rightarrow> (fst r, b))"

definition handleConfirmDialog :: "confirm_dom \<Rightarrow> effect list \<times> bool" where
  "handleConfirmDialog doc = catch_false (handleConfirmDialog_try doc)"

text \<open>
  The page during one \<^verbatim>\<open>buyItem\<close> call: \<^verbatim>\<open>element_valid\<close> is the test
  \<^verbatim>\<open>item.element && typeof item.element.click === 'function'\<close>, \<^verbatim>\<open>buyButton\<close> whether
  \<^verbatim>\<open>querySelector('[data-action="buyItem"]')\<close> finds a node.
\<close>

record purchase_dom =
  element_valid :: bool
  element_click_throws :: bool
  buyButton :: bool
  buy_click_throws :: bool
  confirmDialog :: confirm_dom

definition buyItem_try :: "deal \<Rightarrow> purchase_dom \<Rightarrow> effect list \<times> (js_error + bool)" where
  "buyItem_try item doc =
     (if element_valid doc
      then if element_click_throws doc then ([Attempt (index item)], Inl DomError)
           else if buyButton doc
                then if buy_click_throws doc
                     then ([Attempt (index item), Click_item (index item), Sleep 1000],
                           Inl DomError)
                     else ([Attempt (index item), Click_item (index item), Sleep 1000,
                            Click_buy, Sleep 1500]
                             @ fst (handleConfirmDialog (confirmDialog doc)),
                           Inr True)
                else ([Attempt (index item), Click_item (index item), Sleep 1000],
                      Inr False)
      else ([Attempt (index item)], Inr False))"

definition buyItem :: "deal \<Rightarrow> purchase_dom \<Rightarrow> effect list \<times> bool" where
  "buyItem item doc = catch_false (buyItem_try item doc)"

record buy_results =
  success :: nat
  failed :: nat

text \<open>
  The loop of \<^verbatim>\<open>autoBuyItems\<close>: \<^verbatim>\<open>i\<close> is the loop variable, \<^verbatim>\<open>doms i\<close> the page
  during the \<^verbatim>\<open>i\<close>-th call of \<^verbatim>\<open>buyItem\<close>.
\<close>

fun buyLoop ::
  "(nat \<Rightarrow> purchase_dom) \<Rightarrow> nat \<Rightarrow> deal list \<Rightarrow> nat \<Rightarrow> nat \<Rightarrow> effect list
     \<Rightarrow> effect list \<times> buy_results" where
  "buyLoop doms i [] successCount failedCount trace =
     (trace, \<lparr> success = successCount, failed = failedCount \<rparr>)"
| "buyLoop doms i (item # rest) successCount failedCount trace =
     (case buyItem item (doms i) of
        (effects, ok) \<Rightarrow>
          buyLoop doms (i + 1) rest
            (if ok then successCount + 1 else successCount)
            (if ok then failedCount else failedCount + 1)
            (trace @ effects @ [Sleep 2000]))"

definition autoBuyItems ::
  "step1_config \<Rightarrow> search_results \<Rightarrow> (nat \<Rightarrow> purchase_dom) \<Rightarrow> effect list \<times> buy_results" where
  "autoBuyItems cfg results doms =
     (if \<not> autoBuy cfg \<or> count results = 0
      then ([], \<lparr> success = 0, failed = 0 \<rparr>)
      else buyLoop doms 0 (items results) 0 0 [])"

subsection \<open>executeStep1\<close>

record step1_world =
  onDeadFrontierSite :: bool
  onMarketplacePage :: bool
  inventoryDom :: inventory_dom
  buyTabActive :: bool
  buyTabExists :: bool
  searchControls :: bool
  resultPage :: result_page
  purchaseDoms :: "nat \<Rightarrow> purchase_dom"

datatype step1_outcome =
    Not_on_site
  | Redirected
  | Search_failed js_error
  | Finished "buy_results option"

text \<open>Step 8 of \<^verbatim>\<open>executeStep1\<close>: the purchase, guarded by the inventory status.\<close>

definition step8 ::
  "step1_config \<Rightarrow> inventoryStatus option \<Rightarrow> search_results \<Rightarrow> (nat \<Rightarrow> purchase_dom)
     \<Rightarrow> effect list \<times> buy_results option" where
  "step8 cfg status results doms =
     (if autoBuy cfg \<and> count results > 0
      then case status of
             None \<Rightarrow> (case autoBuyItems cfg results doms of (t, r) \<Rightarrow> (t, Some r))
           | Some st \<Rightarrow>
               if isFull st then ([], None)
               else if isNearFull st
                    then (case autoBuyItems cfg results doms of (t, r) \<Rightarrow> (t, Some r))
                    else (case autoBuyItems cfg results doms of (t, r) \<Rightarrow> (t, Some r))
      else ([], None))"

text \<open>
  \<^verbatim>\<open>searchItem\<close> waits for \<^verbatim>\<open>#searchField\<close> and \<^verbatim>\<open>#makeSearch\<close>; when they do not
  appear it rethrows, and the \<^verbatim>\<open>catch\<close> of \<^verbatim>\<open>executeStep1\<close> ends the run.
\<close>

definition executeStep1 :: "step1_config \<Rightarrow> step1_world \<Rightarrow> effect list \<times> step1_outcome" where
  "executeStep1 cfg w =
     (if \<not> onDeadFrontierSite w then ([], Not_on_site)
      else if \<not> onMarketplacePage w then ([Navigate], Redirected)
      else
        let status = (if checkInventory cfg
                      then Some (checkInventoryStatus (inventoryDom w)) else None);
            t3 = [Sleep 2000] @ (if checkInventory cfg then [Read_inventory] else []);
            t4 = t3 @ (if \<not> buyTabActive w \<and> buyTabExists w
                       then [Click_buy_tab, Sleep 2000] else [])
        in if \<not> searchControls w then (t4, Search_failed DomError)
           else
             let t5 = t4 @ [Search (targetItem cfg), Sleep 3000];
                 results = analyzeSearchResults cfg (resultPage w)
             in case step8 cfg status results (purchaseDoms w) of
                  (t8, r) \<Rightarrow> (t5 @ t8, Finished r))"

text \<open>The purchase attempts of a trace: the item numbers, in order.\<close>

fun attempts :: "effect list \<Rightarrow> nat list" where
  "attempts [] = []"
| "attempts (Attempt i # rest) = i # attempts rest"
| "attempts (e # rest) = attempts rest"

section \<open>Step 2: the auto seller\<close>

subsection \<open>Sales statistics in localStorage\<close>

record sales_stats =
  totalSuccess :: int
  totalFailed :: int
  totalQuantity :: rat
  totalValue :: rat
  lastSaleTime :: int

text \<open>
  The item \<^verbatim>\<open>df_auto_seller_stats\<close> of localStorage: absent, the JSON text of a
  statistics record, or a text that \<^verbatim>\<open>JSON.parse\<close> rejects.
\<close>

datatype stored_item = Absent | Stats_json sales_stats | Malformed

definition getSalesStats :: "stored_item \<Rightarrow> js_error + sales_stats" where
  "getSalesStats storage =
     (case storage of
        Stats_json stats \<Rightarrow> Inr stats
      | Malformed \<Rightarrow> Inl SyntaxError
      | Absent \<Rightarrow> Inr \<lparr> totalSuccess = 0, totalFailed = 0, totalQuantity = 0,
                        totalValue = 0, lastSaleTime = 0 \<rparr>)"

text \<open>
  \<^verbatim>\<open>updateSalesStats(success, quantity = 0, value = 0)\<close>; \<^verbatim>\<open>now\<close> is what
  \<^verbatim>\<open>Date.now()\<close> returns. The result is the returned record and the new stored item.
\<close>

definition updateSalesStats ::
  "bool \<Rightarrow> rat \<Rightarrow> rat \<Rightarrow> int \<Rightarrow> stored_item \<Rightarrow> js_error + (sales_stats \<times> stored_item)" where
  "updateSalesStats ok qty val now storage =
     (case getSalesStats storage of
        Inl e \<Rightarrow> Inl e
      | Inr stats \<Rightarrow>
          let stats1 = (if ok
                        then stats\<lparr> totalSuccess := totalSuccess stats + 1,
                                    totalQuantity := totalQuantity stats + qty,
                                    totalValue := totalValue stats + val \<rparr>
                        else stats\<lparr> totalFailed := totalFailed stats + 1 \<rparr>);
              stats2 = stats1\<lparr> lastSaleTime := now \<rparr>
          in Inr (stats2, Stats_json stats2))"

subsection \<open>Configuration and pacing\<close>

text \<open>
  The part of \<^verbatim>\<open>CONFIG\<close> that the embedded functions read; the nested objects
  \<^verbatim>\<open>humanBehavior.itemDelay\<close> and \<^verbatim>\<open>humanBehavior.progressiveDelay\<close> are flattened.
\<close>

record step2_config =
  sellPrice :: rat
  removeDecimalFromTotal :: bool
  autoSell :: bool
  itemDelay_min :: rat
  itemDelay_max :: rat
  progressiveDelay_enabled :: bool
  progressiveDelay_multiplier :: rat
  progressiveDelay_maxMultiplier :: rat
  progressiveDelay_resetAfter :: int

definition step2_CONFIG :: step2_config where
  "step2_CONFIG = \<lparr> sellPrice = 1166 / 100,
                    removeDecimalFromTotal = True,
                    autoSell = True,
                    itemDelay_min = 3000,
                    itemDelay_max = 6000,
                    progressiveDelay_enabled = False,
                    progressiveDelay_multiplier = 12 / 10,
                    progressiveDelay_maxMultiplier = 2,
                    progressiveDelay_resetAfter = 180000 \<rparr>"

text \<open>The three script-level variables that track the cumulative delay.\<close>

record pacing =
  operationCount :: nat
  lastOperationTime :: int
  currentDelayMultiplier :: rat

definition initial_pacing :: pacing where
  "initial_pacing = \<lparr> operationCount = 0, lastOperationTime = 0,
                       currentDelayMultiplier = 1 \<rparr>"

text \<open>\<^verbatim>\<open>rnd\<close> is what \<^verbatim>\<open>Math.random()\<close> returns, a number in \<open>[0, 1)\<close>.\<close>

definition humanDelay :: "rat \<Rightarrow> rat \<Rightarrow> rat \<Rightarrow> int" where
  "humanDelay baseMs variationMs rnd =
     (let randomDelay = baseMs + (rnd * variationMs * 2 - variationMs)
      in max 500 \<lfloor>randomDelay\<rfloor>)"

text \<open>
  \<^verbatim>\<open>humanWait\<close> sleeps for the computed delay; the result is that delay and the
  script-level variables afterwards (it assigns none of them).
\<close>

definition humanWait :: "step2_config \<Rightarrow> pacing \<Rightarrow> rat \<Rightarrow> rat \<Rightarrow> rat \<Rightarrow> int \<times> pacing" where
  "humanWait cfg st baseMs variationMs rnd =
     (let delay = humanDelay baseMs variationMs rnd;
          delay' = (if progressiveDelay_enabled cfg
                    then \<lfloor>of_int delay * currentDelayMultiplier st\<rfloor>
                    else delay)
      in (delay', st))"

text \<open>\<^verbatim>\<open>now\<close> is what \<^verbatim>\<open>Date.now()\<close> returns after the sleep.\<close>

definition enhancedItemWait :: "step2_config \<Rightarrow> pacing \<Rightarrow> rat \<Rightarrow> int \<Rightarrow> int \<times> pacing" where
  "enhancedItemWait cfg st rnd now =
     (let st1 = st\<lparr> operationCount := operationCount st + 1 \<rparr>;
          baseDelay = itemDelay_min cfg + rnd * (itemDelay_max cfg - itemDelay_min cfg)
      in (\<lfloor>baseDelay\<rfloor>, st1\<lparr> lastOperationTime := now \<rparr>))"

text \<open>
  A run of consecutive \<^verbatim>\<open>humanWait\<close> calls with the same arguments, one per random
  draw, the script-level variables passed from each call to the next: the delays slept.
\<close>

fun consecutiveWaits :: "step2_config \<Rightarrow> pacing \<Rightarrow> rat \<Rightarrow> rat \<Rightarrow> rat list \<Rightarrow> int list" where
  "consecutiveWaits cfg st baseMs variationMs [] = []"
| "consecutiveWaits cfg st baseMs variationMs (rnd # rest) =
     (case humanWait cfg st baseMs variationMs rnd of
        (delay, st') \<Rightarrow> delay # consecutiveWaits cfg st' baseMs variationMs rest)"

subsection \<open>calculateSellPrice\<close>

record price_info =
  unitPrice :: rat
  totalPrice :: rat
  soldQuantity :: int

definition calculateSellPrice :: "step2_config \<Rightarrow> int \<Rightarrow> price_info" where
  "calculateSellPrice cfg qty =
     (let total = sellPrice cfg * of_int qty;
          total' = (if removeDecimalFromTotal cfg then of_int \<lfloor>total\<rfloor> else total)
      in \<lparr> unitPrice = sellPrice cfg, totalPrice = total', soldQuantity = qty \<rparr>)"

section \<open>The configuration file and the specification's vocabulary\<close>

text \<open>
  The sections \<^verbatim>\<open>buying\<close> and \<^verbatim>\<open>selling\<close> of \<^verbatim>\<open>trading_config.json\<close>, as far as the
  properties below name them. Neither userscript reads this file.
\<close>

record trading_config =
  max_purchases_per_cycle :: nat
  markup_percentage :: rat
  min_markup_percentage :: rat
  max_markup_percentage :: rat

definition trading_config_json :: trading_config where
  "trading_config_json = \<lparr> max_purchases_per_cycle = 10,
                            markup_percentage = 2 / 10,
                            min_markup_percentage = 1 / 10,
                            max_markup_percentage = 5 / 10 \<rparr>"

text \<open>
  The ask price in the specification's words: the acquisition unit price times one plus
  the markup, the markup clamped into the configured range. It is stated here to be
  compared with \<^const>\<open>calculateSellPrice\<close>.
\<close>

definition spec_askPrice :: "trading_config \<Rightarrow> rat \<Rightarrow> rat" where
  "spec_askPrice tc acquisitionUnitPrice =
     acquisitionUnitPrice
       * (1 + max (min_markup_percentage tc)
                  (min (max_markup_percentage tc) (markup_percentage tc)))"

text \<open>
  Re-validation in the specification's words, as a property of a trace: every purchase
  attempt comes after an inventory read that no earlier attempt has used. The flag says
  whether such a fresh read is at hand.
\<close>

fun spec_revalidated :: "bool \<Rightarrow> effect list \<Rightarrow> bool" where
  "spec_revalidated fresh [] = True"
| "spec_revalidated fresh (Read_inventory # rest) = spec_revalidated True rest"
| "spec_revalidated fresh (Attempt i # rest) = (fresh \<and> spec_revalidated False rest)"
| "spec_revalidated fresh (e # rest) = spec_revalidated fresh rest"

text \<open>The resource snapshot of the specification.\<close>

record ResourceSnapshot =
  cashOnHand :: nat
  bankBalance :: nat
  inventoryUsed :: nat
  inventoryCapacity :: nat
  storageUsed :: nat
  storageCapacity :: nat
  activeListings :: nat
  listingCapacity :: nat

text \<open>
  Modelled from the spec: the free-slot counts of the Resource Coordinator, clamped at 0
  (the subtraction on \<^typ>\<open>nat\<close> stops at 0). The trading engine that computes them over
  a snapshot is not among the sources.
\<close>

definition freeInventorySlots :: "ResourceSnapshot \<Rightarrow> nat" where
  "freeInventorySlots s = inventoryCapacity s - inventoryUsed s"

definition freeStorageSlots :: "ResourceSnapshot \<Rightarrow> nat" where
  "freeStorageSlots s = storageCapacity s - storageUsed s"

definition freeListingSlots :: "ResourceSnapshot \<Rightarrow> nat" where
  "freeListingSlots s = listingCapacity s - activeListings s"

text \<open>
  Modelled from the spec: the full-block predicate \<^verbatim>\<open>isBlocked\<close> of the Resource
  Coordinator. The trading engine that decides it is not among the sources; only the
  design notes (\<^verbatim>\<open>docs/trading_engine_design.md\<close>, \<^verbatim>\<open>docs/trading_workflow.md\<close>)
  describe the fully blocked state, as the specification does: no cash, no bank money,
  and no room left in inventory, storage or listings.
\<close>

definition isBlocked :: "ResourceSnapshot \<Rightarrow> bool" where
  "isBlocked s =
     (cashOnHand s = 0 \<and> bankBalance s = 0 \<and> freeInventorySlots s = 0
      \<and> freeStorageSlots s = 0 \<and> freeListingSlots s = 0)"

section \<open>Concrete inputs\<close>

text \<open>A result row with a parsed price and quantity.\<close>

definition row :: "nat \<Rightarrow> rat \<Rightarrow> int \<Rightarrow> fakeItem" where
  "row n p q = \<lparr> node = n, dataset_price = Some p, dataset_quantity = Some q \<rparr>"

text \<open>
  Four rows of 100 rounds: unit prices 10, 11, 12 and 5. The third exceeds the ceiling of
  11.6 and ends the scan, so the fourth is never looked at.
\<close>

definition sample_page :: result_page where
  "sample_page = \<lparr> itemDisplay = Some 4,
       fakeItems = [row 1 1000 100, row 2 1100 100, row 3 1200 100, row 4 500 100] \<rparr>"

text \<open>Four rows of 100 rounds at a unit price of 10, all under the ceiling.\<close>

definition cheap_page :: result_page where
  "cheap_page = \<lparr> itemDisplay = Some 4,
       fakeItems = [row 1 1000 100, row 2 1000 100, row 3 1000 100, row 4 1000 100] \<rparr>"

text \<open>Inventory texts \<^verbatim>\<open>10/40\<close>, \<^verbatim>\<open>39/40\<close>, \<^verbatim>\<open>40/40\<close> and \<^verbatim>\<open>45/40\<close>.\<close>

definition roomy_inventory :: inventory_dom where
  "roomy_inventory = \<lparr> inventoryItems = 10, inventoryInfo = Some (Some (10, 40)),
       invController = None, dom_throws = False \<rparr>"

definition nearly_full_inventory :: inventory_dom where
  "nearly_full_inventory = \<lparr> inventoryItems = 39, inventoryInfo = Some (Some (39, 40)),
       invController = None, dom_throws = False \<rparr>"

definition full_inventory :: inventory_dom where
  "full_inventory = \<lparr> inventoryItems = 40, inventoryInfo = Some (Some (40, 40)),
       invController = None, dom_throws = False \<rparr>"

definition overfull_inventory :: inventory_dom where
  "overfull_inventory = \<lparr> inventoryItems = 45, inventoryInfo = Some (Some (45, 40)),
       invController = None, dom_throws = False \<rparr>"

text \<open>
  A page on which the purchase goes through, and one on which the offer is gone: the row
  can still be clicked, but no buy button appears.
\<close>

definition ready_purchase :: purchase_dom where
  "ready_purchase = \<lparr> element_valid = True, element_click_throws = False,
       buyButton = True, buy_click_throws = False,
       confirmDialog = \<lparr> yesButton = Some True, confirmButtons = [],
                          yes_click_throws = False \<rparr> \<rparr>"

definition vanished_purchase :: purchase_dom where
  "vanished_purchase = ready_purchase\<lparr> buyButton := False \<rparr>"

text \<open>
  The marketplace page with \<^const>\<open>sample_page\<close> as search result; the first purchase goes
  through, the offers of the later ones have vanished.
\<close>

definition market_world :: "inventory_dom \<Rightarrow> step1_world" where
  "market_world inventory = \<lparr> onDeadFrontierSite = True, onMarketplacePage = True,
       inventoryDom = inventory, buyTabActive = False, buyTabExists = True,
       searchControls = True, resultPage = sample_page,
       purchaseDoms = (\<lambda>i. if i = 0 then ready_purchase else vanished_purchase) \<rparr>"

text \<open>The shipped configuration with the automatic purchase switched on.\<close>

definition buying_CONFIG :: step1_config where
  "buying_CONFIG = step1_CONFIG\<lparr> autoBuy := True \<rparr>"

text \<open>The shipped seller configuration with the progressive delay switched on.\<close>

definition progressive_CONFIG :: step2_config where
  "progressive_CONFIG = step2_CONFIG\<lparr> progressiveDelay_enabled := True \<rparr>"

text \<open>
  The configuration file with the purchase cap that \<^verbatim>\<open>docs/trading_config_guide.md\<close>
  recommends to beginners.
\<close>

definition beginner_config :: trading_config where
  "beginner_config = trading_config_json\<lparr> max_purchases_per_cycle := 3 \<rparr>"

text \<open>
  Two snapshots: the fully blocked scenario of the specification, and one whose inventory
  is saturated while cash and storage room remain.
\<close>

definition blocked_snapshot :: ResourceSnapshot where
  "blocked_snapshot = \<lparr> cashOnHand = 0, bankBalance = 0,
       inventoryUsed = 40, inventoryCapacity = 40,
       storageUsed = 50, storageCapacity = 50,
       activeListings = 30, listingCapacity = 30 \<rparr>"

definition saturated_inventory_snapshot :: ResourceSnapshot where
  "saturated_inventory_snapshot = \<lparr> cashOnHand = 100, bankBalance = 0,
       inventoryUsed = 40, inventoryCapacity = 40,
       storageUsed = 10, storageCapacity = 50,
       activeListings = 0, listingCapacity = 30 \<rparr>"

definition sample_stats :: sales_stats where
  "sample_stats = \<lparr> totalSuccess = 3, totalFailed = 1, totalQuantity = 300,
       totalValue = 3498, lastSaleTime = 1000 \<rparr>"

section \<open>Properties\<close>

subsection \<open>Selection by unit price\<close>

lemma checkRows_ceiling:
  "g \<in> set (checkRows cfg idx rows) \<Longrightarrow>
     actualPricePerUnit g \<le> maxPricePerUnit cfg
     \<and> actualPricePerUnit g = actualPrice g / of_int (quantity g)
     \<and> quantity g \<noteq> 0"
proof (induction rows arbitrary: idx)
  case Nil
  then show ?case by simp
next
  case (Cons item rest)
  then show ?case
    by (auto simp: Let_def js_or_def split: if_splits option.splits)
qed

lemma checkRows_length: "length (checkRows cfg idx rows) \<le> length rows"
  by (induction rows arbitrary: idx) (auto simp: Let_def)

lemma checkRows_rows:
  "g \<in> set (checkRows cfg idx rows) \<Longrightarrow>
     element g \<in> set rows
     \<and> price g = js_or (dataset_price (element g)) 0
     \<and> quantity g = js_or (dataset_quantity (element g)) 1
     \<and> actualPrice g = price g
     \<and> actualPricePerUnit g = price g / of_int (quantity g)"
proof (induction rows arbitrary: idx)
  case Nil
  then show ?case by simp
next
  case (Cons item rest)
  then show ?case
    by (auto simp: Let_def split: if_splits)
qed

lemma checkRows_takeWhile:
  "map element (checkRows cfg idx rows)
     = takeWhile (\<lambda>item. js_or (dataset_price item) 0
                            / of_int (js_or (dataset_quantity item) 1)
                          \<le> maxPricePerUnit cfg) rows"
  by (induction rows arbitrary: idx) (simp_all add: Let_def)

text \<open>
  C1. Every offer that \<^verbatim>\<open>analyzeSearchResults\<close> selects is a row of the page, carries
  that row's parsed price and quantity, and has a unit price, the price divided by the
  quantity, that is at most the configured ceiling \<^verbatim>\<open>CONFIG.maxPricePerUnit\<close>, whatever
  the page shows. The quantity is never 0, so the division is the script's. The selected
  rows are exactly the longest run of rows within the ceiling at the head of the rows
  examined: no row above the ceiling is ever selected.
\<close>

theorem analyzeSearchResults_within_ceiling:
  "(\<forall>g \<in> set (items (analyzeSearchResults cfg page)).
      element g \<in> set (fakeItems page)
      \<and> price g = js_or (dataset_price (element g)) 0
      \<and> quantity g = js_or (dataset_quantity (element g)) 1
      \<and> quantity g \<noteq> 0
      \<and> price g / of_int (quantity g) \<le> maxPricePerUnit cfg
      \<and> actualPrice g = price g
      \<and> actualPricePerUnit g = price g / of_int (quantity g))
   \<and> map element (items (analyzeSearchResults cfg page))
       = (if itemDisplay page = None \<or> itemDisplay page = Some 0 then []
          else takeWhile (\<lambda>item. js_or (dataset_price item) 0
                                    / of_int (js_or (dataset_quantity item) 1)
                                  \<le> maxPricePerUnit cfg)
                 (take (nat (min (int (length (fakeItems page))) (maxRows cfg)))
                    (fakeItems page)))"
proof -
  let ?rows = "take (nat (min (int (length (fakeItems page))) (maxRows cfg)))
                 (fakeItems page)"
  have sub: "items (analyzeSearchResults cfg page) = []
             \<or> items (analyzeSearchResults cfg page) = checkRows cfg 0 ?rows"
    by (auto simp: analyzeSearchResults_def Let_def split: option.splits)
  have each: "element g \<in> set (fakeItems page)
      \<and> price g = js_or (dataset_price (element g)) 0
      \<and> quantity g = js_or (dataset_quantity (element g)) 1
      \<and> quantity g \<noteq> 0
      \<and> price g / of_int (quantity g) \<le> maxPricePerUnit cfg
      \<and> actualPrice g = price g
      \<and> actualPricePerUnit g = price g / of_int (quantity g)"
    if g: "g \<in> set (items (analyzeSearchResults cfg page))" for g
  proof -
    from g sub have in_rows: "g \<in> set (checkRows cfg 0 ?rows)"
      by auto
    from checkRows_rows [OF in_rows] have r: "element g \<in> set ?rows"
      and rest: "price g = js_or (dataset_price (element g)) 0"
        "quantity g = js_or (dataset_quantity (element g)) 1"
        "actualPrice g = price g"
        "actualPricePerUnit g = price g / of_int (quantity g)"
      by simp_all
    from r have "element g \<in> set (fakeItems page)"
      by (rule in_set_takeD)
    moreover from checkRows_ceiling [OF in_rows] rest
    have "quantity g \<noteq> 0" "price g / of_int (quantity g) \<le> maxPricePerUnit cfg"
      by simp_all
    ultimately show ?thesis using rest by simp
  qed
  have sel: "map element (items (analyzeSearchResults cfg page))
       = (if itemDisplay page = None \<or> itemDisplay page = Some 0 then []
          else takeWhile (\<lambda>item. js_or (dataset_price item) 0
                                    / of_int (js_or (dataset_quantity item) 1)
                                  \<le> maxPricePerUnit cfg) ?rows)"
    by (auto simp: analyzeSearchResults_def Let_def checkRows_takeWhile
        split: option.splits)
  from each sel show ?thesis
    by blast
qed

theorem analyzeSearchResults_within_ceiling_witness:
  "\<lparr> index = 2, price = 1100, quantity = 100, element = row 2 1100 100,
     actualPrice = 1100, actualPricePerUnit = 11 \<rparr>
     \<in> set (items (analyzeSearchResults step1_CONFIG sample_page))
   \<and> row 2 1100 100 \<in> set (fakeItems sample_page)
   \<and> (1100 :: rat) / of_int 100 \<le> maxPricePerUnit step1_CONFIG
   \<and> map element (items (analyzeSearchResults step1_CONFIG sample_page))
       = [row 1 1000 100, row 2 1100 100]
   \<and> row 3 1200 100
       \<notin> set (map element (items (analyzeSearchResults step1_CONFIG sample_page)))"
  using analyzeSearchResults_within_ceiling [of step1_CONFIG sample_page]
  by (simp add: analyzeSearchResults_def sample_page_def step1_CONFIG_def row_def
      js_or_def Let_def)

subsection \<open>The number of selected offers\<close>

lemma count_analyzeSearchResults:
  "count (analyzeSearchResults cfg page) = length (items (analyzeSearchResults cfg page))"
  by (auto simp: analyzeSearchResults_def Let_def split: option.splits)

text \<open>
  With the purchase cap of the configuration file set to 3 and four offers under the
  price ceiling on the page, \<^verbatim>\<open>analyzeSearchResults\<close> selects all four: the cap is not
  consulted.
\<close>

theorem selection_exceeds_purchase_cap:
  "\<not> count (analyzeSearchResults step1_CONFIG cheap_page)
       \<le> max_purchases_per_cycle beginner_config"
  by (simp add: analyzeSearchResults_def cheap_page_def step1_CONFIG_def row_def js_or_def
      Let_def beginner_config_def trading_config_json_def)

text \<open>
  C6 (amended). The number of offers that \<^verbatim>\<open>analyzeSearchResults\<close> selects never
  exceeds \<^verbatim>\<open>CONFIG.maxRows\<close>, the number of result rows it examines, nor the number of
  rows on the page; it is the length of the returned list. With the shipped values, where
  \<^verbatim>\<open>maxRows\<close> and the purchase cap of the configuration file are both 10, it stays
  within that cap.
\<close>

theorem count_le_maxRows:
  "int (count (analyzeSearchResults cfg page)) \<le> max 0 (maxRows cfg)
   \<and> count (analyzeSearchResults cfg page) \<le> length (fakeItems page)
   \<and> count (analyzeSearchResults cfg page)
       = length (items (analyzeSearchResults cfg page))
   \<and> count (analyzeSearchResults step1_CONFIG page)
       \<le> max_purchases_per_cycle trading_config_json"
proof -
  let ?n = "nat (min (int (length (fakeItems page))) (maxRows cfg))"
  have "length (checkRows cfg 0 (take ?n (fakeItems page)))
          \<le> length (take ?n (fakeItems page))"
    by (rule checkRows_length)
  then have "length (checkRows cfg 0 (take ?n (fakeItems page))) \<le> ?n"
    and "length (checkRows cfg 0 (take ?n (fakeItems page))) \<le> length (fakeItems page)"
    by simp_all
  then have general:
    "int (count (analyzeSearchResults cfg page)) \<le> max 0 (maxRows cfg)
     \<and> count (analyzeSearchResults cfg page) \<le> length (fakeItems page)
     \<and> count (analyzeSearchResults cfg page)
         = length (items (analyzeSearchResults cfg page))"
    by (auto simp: analyzeSearchResults_def Let_def split: option.splits)
  let ?m = "nat (min (int (length (fakeItems page))) 10)"
  have "length (checkRows step1_CONFIG 0 (take ?m (fakeItems page)))
          \<le> length (take ?m (fakeItems page))"
    by (rule checkRows_length)
  then have "length (checkRows step1_CONFIG 0 (take ?m (fakeItems page))) \<le> 10"
    by simp
  then have shipped:
    "count (analyzeSearchResults step1_CONFIG page)
       \<le> max_purchases_per_cycle trading_config_json"
    by (auto simp: analyzeSearchResults_def Let_def trading_config_json_def
        step1_CONFIG_def split: option.splits)
  from general shipped show ?thesis
    by simp
qed

theorem count_le_maxRows_witness:
  "count (analyzeSearchResults step1_CONFIG cheap_page) = 4
   \<and> int (count (analyzeSearchResults step1_CONFIG cheap_page)) \<le> 10"
  using count_le_maxRows [of step1_CONFIG cheap_page]
  by (simp add: analyzeSearchResults_def cheap_page_def step1_CONFIG_def row_def js_or_def
      Let_def)

subsection \<open>The inventory status\<close>

text \<open>
  The inventory text \<^verbatim>\<open>45/40\<close> gives \<open>- 5\<close> available slots: the count is not
  clamped at 0.
\<close>

theorem availableSlots_negative:
  "availableSlots (checkInventoryStatus overfull_inventory) = - 5
   \<and> \<not> 0 \<le> availableSlots (checkInventoryStatus overfull_inventory)"
  by (simp add: checkInventoryStatus_def overfull_inventory_def fallback_def method1_def
      method2_def method3_def)

text \<open>
  C7 (amended). The free inventory slot count that \<^verbatim>\<open>checkInventoryStatus\<close> reports
  is the difference of total and used slots: it is negative exactly when the used count
  exceeds the total, and \<^verbatim>\<open>isFull\<close> says that it is at most 0 (and that the read did
  not fail).
\<close>

theorem availableSlots_difference:
  "availableSlots (checkInventoryStatus doc)
     = totalSlots (checkInventoryStatus doc) - usedSlots (checkInventoryStatus doc)
   \<and> (availableSlots (checkInventoryStatus doc) < 0)
     = (totalSlots (checkInventoryStatus doc) < usedSlots (checkInventoryStatus doc))
   \<and> isFull (checkInventoryStatus doc)
     = (\<not> error (checkInventoryStatus doc)
        \<and> availableSlots (checkInventoryStatus doc) \<le> 0)"
  by (auto simp: checkInventoryStatus_def fallback_def split: prod.splits)

theorem availableSlots_difference_witness:
  "availableSlots (checkInventoryStatus nearly_full_inventory) = 40 - 39
   \<and> \<not> isFull (checkInventoryStatus nearly_full_inventory)"
  using availableSlots_difference [of nearly_full_inventory]
  by (simp add: checkInventoryStatus_def nearly_full_inventory_def fallback_def
      method1_def method2_def method3_def)

subsection \<open>Traces of the purchase loop\<close>

lemma attempts_append: "attempts (xs @ ys) = attempts xs @ attempts ys"
  by (induction xs rule: attempts.induct) simp_all

lemma handleConfirmDialog_trace:
  "set (fst (handleConfirmDialog d)) \<subseteq> {Click_yes, Sleep 2000}"
  by (auto simp: handleConfirmDialog_def handleConfirmDialog_try_def catch_false_def)

lemma attempts_handleConfirmDialog: "attempts (fst (handleConfirmDialog d)) = []"
  by (simp add: handleConfirmDialog_def handleConfirmDialog_try_def catch_false_def)

lemma attempts_buyItem: "attempts (fst (buyItem item doc)) = [index item]"
  by (simp add: buyItem_def buyItem_try_def catch_false_def attempts_append
      attempts_handleConfirmDialog)

lemma no_read_buyItem: "Read_inventory \<notin> set (fst (buyItem item doc))"
  using handleConfirmDialog_trace [of "confirmDialog doc"]
  by (auto simp: buyItem_def buyItem_try_def catch_false_def)

lemma attempts_buyLoop:
  "attempts (fst (buyLoop doms i its s f t)) = attempts t @ map index its"
proof (induction its arbitrary: i s f t)
  case Nil
  then show ?case by simp
next
  case (Cons item rest)
  obtain effects ok where b: "buyItem item (doms i) = (effects, ok)"
    by (cases "buyItem item (doms i)")
  then have "attempts effects = [index item]"
    using attempts_buyItem [of item "doms i"] by simp
  with b Cons.IH show ?case
    by (simp add: attempts_append)
qed

lemma no_read_buyLoop:
  "Read_inventory \<notin> set t \<Longrightarrow>
     Read_inventory \<notin> set (fst (buyLoop doms i its s f t))"
proof (induction its arbitrary: i s f t)
  case Nil
  then show ?case by simp
next
  case (Cons item rest)
  obtain effects ok where b: "buyItem item (doms i) = (effects, ok)"
    by (cases "buyItem item (doms i)")
  then have "Read_inventory \<notin> set effects"
    using no_read_buyItem [of item "doms i"] by simp
  with b Cons show ?case
    by simp
qed

lemma counts_buyLoop:
  "success (snd (buyLoop doms i its s f t)) + failed (snd (buyLoop doms i its s f t))
     = s + f + length its"
proof (induction its arbitrary: i s f t)
  case Nil
  then show ?case by simp
next
  case (Cons item rest)
  obtain effects ok where b: "buyItem item (doms i) = (effects, ok)"
    by (cases "buyItem item (doms i)")
  with Cons.IH show ?case
    by simp
qed

lemma attempts_autoBuyItems:
  "autoBuy cfg \<Longrightarrow> count results = length (items results) \<Longrightarrow>
     attempts (fst (autoBuyItems cfg results doms)) = map index (items results)"
  by (auto simp: autoBuyItems_def attempts_buyLoop)

subsection \<open>Selected quantity and free slots\<close>

text \<open>
  With one free slot (\<^verbatim>\<open>39/40\<close>) the shipped configuration still selects two offers
  of 100 rounds each: the selection does not look at the inventory.
\<close>

theorem selection_exceeds_free_slots:
  "\<not> sum_list (map quantity (items (analyzeSearchResults step1_CONFIG sample_page)))
       \<le> availableSlots (checkInventoryStatus nearly_full_inventory)"
  by (simp add: analyzeSearchResults_def sample_page_def step1_CONFIG_def row_def js_or_def
      Let_def checkInventoryStatus_def nearly_full_inventory_def fallback_def method1_def
      method2_def method3_def)

text \<open>
  C2 (amended). The only inventory guard is in \<^verbatim>\<open>executeStep1\<close>: when the inventory
  check is enabled and the status read before the search reports the inventory full, no
  purchase is attempted; otherwise, on the marketplace page with the search controls
  present and auto-buy enabled, every selected offer is attempted, in order.
\<close>

theorem full_inventory_skips_purchase:
  "(checkInventory cfg \<and> isFull (checkInventoryStatus (inventoryDom w))
      \<longrightarrow> attempts (fst (executeStep1 cfg w)) = [])
   \<and> (onDeadFrontierSite w \<and> onMarketplacePage w \<and> searchControls w \<and> autoBuy cfg
        \<and> \<not> (checkInventory cfg \<and> isFull (checkInventoryStatus (inventoryDom w)))
      \<longrightarrow> attempts (fst (executeStep1 cfg w))
            = map index (items (analyzeSearchResults cfg (resultPage w))))"
proof -
  let ?r = "analyzeSearchResults cfg (resultPage w)"
  have a: "autoBuy cfg \<Longrightarrow>
             attempts (fst (autoBuyItems cfg ?r (purchaseDoms w))) = map index (items ?r)"
    by (rule attempts_autoBuyItems) (simp_all add: count_analyzeSearchResults)
  have c0: "count ?r = 0 \<Longrightarrow> items ?r = []"
    using count_analyzeSearchResults [of cfg "resultPage w"] by simp
  show ?thesis
    using a c0
    by (auto simp: executeStep1_def step8_def Let_def attempts_append split: prod.splits)
qed

theorem full_inventory_skips_purchase_witness:
  "checkInventory buying_CONFIG
   \<and> isFull (checkInventoryStatus (inventoryDom (market_world full_inventory)))
   \<and> attempts (fst (executeStep1 buying_CONFIG (market_world full_inventory))) = []
   \<and> \<not> isFull (checkInventoryStatus (inventoryDom (market_world nearly_full_inventory)))
   \<and> attempts (fst (executeStep1 buying_CONFIG (market_world nearly_full_inventory)))
       = [1, 2]"
  using full_inventory_skips_purchase [of buying_CONFIG "market_world full_inventory"]
    full_inventory_skips_purchase [of buying_CONFIG "market_world nearly_full_inventory"]
  by (simp add: buying_CONFIG_def step1_CONFIG_def market_world_def
      checkInventoryStatus_def full_inventory_def nearly_full_inventory_def fallback_def
      method1_def method2_def method3_def analyzeSearchResults_def sample_page_def row_def
      js_or_def Let_def)

subsection \<open>Re-validation and failed attempts\<close>

text \<open>
  A run that selects two offers reads the inventory once, before the search, and then
  makes both attempts: the second attempt has no fresh read before it.
\<close>

theorem no_revalidation_between_attempts:
  "\<not> spec_revalidated False
       (fst (executeStep1 buying_CONFIG (market_world roomy_inventory)))"
  by (simp add: executeStep1_def step8_def autoBuyItems_def buying_CONFIG_def
      step1_CONFIG_def market_world_def analyzeSearchResults_def sample_page_def row_def
      js_or_def Let_def checkInventoryStatus_def roomy_inventory_def fallback_def
      method1_def method2_def method3_def buyItem_def buyItem_try_def catch_false_def
      handleConfirmDialog_def handleConfirmDialog_try_def ready_purchase_def
      vanished_purchase_def)

text \<open>
  C8 (amended). Within \<^verbatim>\<open>autoBuyItems\<close> the inventory is never read again. Each
  attempt ends in a boolean: an invalid item element, a missing buy button or an
  exception raised inside \<^verbatim>\<open>buyItem\<close> gives \<^verbatim>\<open>false\<close>, and when the loop runs every
  selected offer is counted as exactly one success or one failure.
\<close>

theorem autoBuyItems_outcomes:
  "Read_inventory \<notin> set (fst (autoBuyItems cfg results doms))
   \<and> (autoBuy cfg \<and> count results \<noteq> 0 \<longrightarrow>
        success (snd (autoBuyItems cfg results doms))
          + failed (snd (autoBuyItems cfg results doms)) = length (items results))
   \<and> (\<not> element_valid doc \<or> \<not> buyButton doc \<or> isl (snd (buyItem_try item doc))
        \<longrightarrow> \<not> snd (buyItem item doc))"
  by (auto simp: autoBuyItems_def no_read_buyLoop counts_buyLoop buyItem_def
      buyItem_try_def catch_false_def split: if_splits)

theorem autoBuyItems_outcomes_witness:
  "autoBuy buying_CONFIG
   \<and> count (analyzeSearchResults buying_CONFIG sample_page) = 2
   \<and> snd (autoBuyItems buying_CONFIG (analyzeSearchResults buying_CONFIG sample_page)
            (purchaseDoms (market_world roomy_inventory)))
       = \<lparr> success = 1, failed = 1 \<rparr>
   \<and> \<not> buyButton vanished_purchase
   \<and> \<not> snd (buyItem (hd (items (analyzeSearchResults buying_CONFIG sample_page)))
                vanished_purchase)"
  using autoBuyItems_outcomes [of buying_CONFIG
      "analyzeSearchResults buying_CONFIG sample_page"
      "purchaseDoms (market_world roomy_inventory)" vanished_purchase
      "hd (items (analyzeSearchResults buying_CONFIG sample_page))"]
  by (simp add: autoBuyItems_def buying_CONFIG_def step1_CONFIG_def market_world_def
      analyzeSearchResults_def sample_page_def row_def js_or_def Let_def buyItem_def
      buyItem_try_def catch_false_def handleConfirmDialog_def handleConfirmDialog_try_def
      ready_purchase_def vanished_purchase_def)

subsection \<open>Sales statistics\<close>

text \<open>
  C10. For every prior statistics record (the one \<^verbatim>\<open>getSalesStats\<close> reads),
  \<^verbatim>\<open>updateSalesStats(false)\<close> adds 1 to \<^verbatim>\<open>totalFailed\<close> and leaves \<^verbatim>\<open>totalSuccess\<close>,
  \<^verbatim>\<open>totalQuantity\<close> and \<^verbatim>\<open>totalValue\<close> as they were; \<^verbatim>\<open>updateSalesStats(true, q, v)\<close>
  adds 1 to \<^verbatim>\<open>totalSuccess\<close>, \<open>q\<close> to \<^verbatim>\<open>totalQuantity\<close> and \<open>v\<close> to \<^verbatim>\<open>totalValue\<close>
  and leaves \<^verbatim>\<open>totalFailed\<close> as it was. Both set \<^verbatim>\<open>lastSaleTime\<close> to the current time,
  store the new record and return it.
\<close>

theorem updateSalesStats_frame:
  assumes "getSalesStats storage = Inr s"
  shows "(\<exists>s'. updateSalesStats False 0 0 now storage = Inr (s', Stats_json s')
            \<and> totalFailed s' = totalFailed s + 1 \<and> totalSuccess s' = totalSuccess s
            \<and> totalQuantity s' = totalQuantity s \<and> totalValue s' = totalValue s
            \<and> lastSaleTime s' = now)
       \<and> (\<exists>s'. updateSalesStats True q v now storage = Inr (s', Stats_json s')
            \<and> totalSuccess s' = totalSuccess s + 1
            \<and> totalQuantity s' = totalQuantity s + q
            \<and> totalValue s' = totalValue s + v \<and> totalFailed s' = totalFailed s
            \<and> lastSaleTime s' = now)"
  using assms by (simp add: updateSalesStats_def Let_def)

theorem updateSalesStats_frame_witness:
  "getSalesStats (Stats_json sample_stats) = Inr sample_stats
   \<and> updateSalesStats False 0 0 2000 (Stats_json sample_stats)
       = Inr (sample_stats\<lparr> totalFailed := 2, lastSaleTime := 2000 \<rparr>,
              Stats_json (sample_stats\<lparr> totalFailed := 2, lastSaleTime := 2000 \<rparr>))
   \<and> updateSalesStats True 100 1166 2000 (Stats_json sample_stats)
       = Inr (sample_stats\<lparr> totalSuccess := 4, totalQuantity := 400, totalValue := 4664,
                             lastSaleTime := 2000 \<rparr>,
              Stats_json (sample_stats\<lparr> totalSuccess := 4, totalQuantity := 400,
                                        totalValue := 4664, lastSaleTime := 2000 \<rparr>))"
  using updateSalesStats_frame [of "Stats_json sample_stats" sample_stats 2000 100 1166]
  by (simp add: updateSalesStats_def getSalesStats_def sample_stats_def Let_def)

subsection \<open>The ask price\<close>

text \<open>
  A lot acquired at 5 per unit would, by the markup rule with the configured markup of
  0.2 in the range 0.1 to 0.5, be listed at 6 and in any case at no more than 7.5; the
  script lists it at the fixed 11.66.
\<close>

theorem sell_price_ignores_acquisition:
  "unitPrice (calculateSellPrice step2_CONFIG 100) = 1166 / 100
   \<and> spec_askPrice trading_config_json 5 = 6
   \<and> unitPrice (calculateSellPrice step2_CONFIG 100) \<noteq> spec_askPrice trading_config_json 5
   \<and> \<not> unitPrice (calculateSellPrice step2_CONFIG 100)
          \<le> 5 * (1 + max_markup_percentage trading_config_json)"
  by (simp add: calculateSellPrice_def step2_CONFIG_def spec_askPrice_def
      trading_config_json_def Let_def)

text \<open>
  C5 (amended). The ask unit price is the fixed configured \<^verbatim>\<open>CONFIG.sellPrice\<close> for
  every lot; the total ask price is that price times the quantity, rounded down to an
  integer when \<^verbatim>\<open>removeDecimalFromTotal\<close> is set, so it lies less than 1 below the
  exact product.
\<close>

theorem calculateSellPrice_fixed:
  "unitPrice (calculateSellPrice cfg qty) = sellPrice cfg
   \<and> soldQuantity (calculateSellPrice cfg qty) = qty
   \<and> totalPrice (calculateSellPrice cfg qty)
       = (if removeDecimalFromTotal cfg then of_int \<lfloor>sellPrice cfg * of_int qty\<rfloor>
          else sellPrice cfg * of_int qty)
   \<and> totalPrice (calculateSellPrice cfg qty) \<le> sellPrice cfg * of_int qty
   \<and> sellPrice cfg * of_int qty - 1 < totalPrice (calculateSellPrice cfg qty)"
  by (simp add: calculateSellPrice_def Let_def) linarith

theorem calculateSellPrice_fixed_witness:
  "unitPrice (calculateSellPrice step2_CONFIG 7) = 1166 / 100
   \<and> totalPrice (calculateSellPrice step2_CONFIG 7) = 81"
  using calculateSellPrice_fixed [of step2_CONFIG 7]
  by (simp add: calculateSellPrice_def step2_CONFIG_def Let_def)

subsection \<open>Delays\<close>

text \<open>
  Three consecutive waits with the same base, variation and random draw all sleep
  1000 ms, with the progressive delay switched off (as shipped) or on: the delays do not
  increase.
\<close>

theorem humanWait_delays_not_increasing:
  "consecutiveWaits progressive_CONFIG initial_pacing 1000 500 [1 / 2, 1 / 2, 1 / 2]
     = [1000, 1000, 1000]
   \<and> \<not> sorted_wrt (<)
        (consecutiveWaits progressive_CONFIG initial_pacing 1000 500 [1 / 2, 1 / 2, 1 / 2])
   \<and> \<not> sorted_wrt (<)
        (consecutiveWaits step2_CONFIG initial_pacing 1000 500 [1 / 2, 1 / 2, 1 / 2])"
  by (simp add: humanWait_def humanDelay_def initial_pacing_def step2_CONFIG_def
      progressive_CONFIG_def Let_def)

text \<open>
  C4 (amended). \<^verbatim>\<open>humanWait\<close> sleeps \<^verbatim>\<open>humanDelay\<close>, at least 500 ms, scaled by
  \<^verbatim>\<open>currentDelayMultiplier\<close> and rounded down only when the progressive delay is
  enabled. Neither \<^verbatim>\<open>humanWait\<close> nor \<^verbatim>\<open>enhancedItemWait\<close> changes the multiplier, so at
  its initial value 1 the delay is \<^verbatim>\<open>humanDelay\<close> itself, and three consecutive waits
  with the same arguments and random draw sleep the same delay.
\<close>

theorem humanWait_multiplier_fixed:
  "snd (humanWait cfg st baseMs variationMs rnd) = st
   \<and> currentDelayMultiplier (snd (enhancedItemWait cfg st rnd now))
       = currentDelayMultiplier st
   \<and> fst (humanWait cfg st baseMs variationMs rnd)
       = (if progressiveDelay_enabled cfg
          then \<lfloor>of_int (humanDelay baseMs variationMs rnd) * currentDelayMultiplier st\<rfloor>
          else humanDelay baseMs variationMs rnd)
   \<and> 500 \<le> humanDelay baseMs variationMs rnd
   \<and> (currentDelayMultiplier st = 1 \<longrightarrow>
        fst (humanWait cfg st baseMs variationMs rnd) = humanDelay baseMs variationMs rnd)
   \<and> consecutiveWaits cfg st baseMs variationMs [rnd, rnd, rnd]
       = [fst (humanWait cfg st baseMs variationMs rnd),
          fst (humanWait cfg st baseMs variationMs rnd),
          fst (humanWait cfg st baseMs variationMs rnd)]"
  by (simp add: humanWait_def enhancedItemWait_def humanDelay_def Let_def)

theorem humanWait_multiplier_fixed_witness:
  "currentDelayMultiplier initial_pacing = 1
   \<and> fst (humanWait progressive_CONFIG initial_pacing 1000 500 (3 / 4)) = 1250
   \<and> snd (humanWait progressive_CONFIG initial_pacing 1000 500 (3 / 4)) = initial_pacing"
  using humanWait_multiplier_fixed [of progressive_CONFIG initial_pacing 1000 500 "3 / 4"]
  by (simp add: humanDelay_def initial_pacing_def progressive_CONFIG_def step2_CONFIG_def)

subsection \<open>The fully blocked state\<close>

text \<open>
  C3. For every snapshot, \<^verbatim>\<open>isBlocked\<close> holds if and only if all five conditions hold
  together: no cash on hand, no bank balance, inventory used at least its capacity,
  storage used at least its capacity, and active listings at least the listing capacity.
  In particular a saturated inventory alone does not make a snapshot blocked.
\<close>

theorem isBlocked_iff_five_conditions:
  "isBlocked s =
     (cashOnHand s = 0 \<and> bankBalance s = 0 \<and> inventoryCapacity s \<le> inventoryUsed s
      \<and> storageCapacity s \<le> storageUsed s \<and> listingCapacity s \<le> activeListings s)
   \<and> inventoryCapacity saturated_inventory_snapshot
       \<le> inventoryUsed saturated_inventory_snapshot
   \<and> \<not> isBlocked saturated_inventory_snapshot"
  by (auto simp: isBlocked_def freeInventorySlots_def freeStorageSlots_def
      freeListingSlots_def saturated_inventory_snapshot_def)

theorem isBlocked_iff_five_conditions_witness:
  "isBlocked blocked_snapshot"
  using isBlocked_iff_five_conditions [of blocked_snapshot]
  by (simp add: blocked_snapshot_def)

subsection \<open>Further facts about the inventory read\<close>

text \<open>
  A negative free-slot count always comes with \<^verbatim>\<open>isFull\<close>, and a whole run of
  \<^verbatim>\<open>executeStep1\<close> reads the inventory at most once.
\<close>

lemma negative_availableSlots_isFull:
  "availableSlots (checkInventoryStatus doc) < 0 \<Longrightarrow> isFull (checkInventoryStatus doc)"
  by (auto simp: checkInventoryStatus_def fallback_def split: prod.splits if_splits)

lemma no_read_autoBuyItems:
  "filter (\<lambda>e. e = Read_inventory) (fst (autoBuyItems cfg results doms)) = []"
proof -
  have "Read_inventory \<notin> set (fst (autoBuyItems cfg results doms))"
    by (simp add: autoBuyItems_def no_read_buyLoop)
  then show ?thesis
    by (auto simp: filter_empty_conv)
qed

lemma no_read_step8:
  "filter (\<lambda>e. e = Read_inventory) (fst (step8 cfg status results doms)) = []"
  using no_read_autoBuyItems [of cfg results doms]
  by (auto simp: step8_def split: option.splits prod.splits)

lemma executeStep1_reads_inventory_once:
  "length (filter (\<lambda>e. e = Read_inventory) (fst (executeStep1 cfg w))) \<le> 1"
proof -
  let ?status = "if checkInventory cfg
                 then Some (checkInventoryStatus (inventoryDom w)) else None"
  obtain t8 r where s8:
    "step8 cfg ?status (analyzeSearchResults cfg (resultPage w)) (purchaseDoms w) = (t8, r)"
    by (cases "step8 cfg ?status (analyzeSearchResults cfg (resultPage w)) (purchaseDoms w)")
  have "filter (\<lambda>e. e = Read_inventory) t8 = []"
    using no_read_step8 [of cfg ?status "analyzeSearchResults cfg (resultPage w)"
        "purchaseDoms w"] s8
    by simp
  with s8 show ?thesis
    by (simp add: executeStep1_def Let_def)
qed

end
